theory Spec2Isabelle
  imports Complex_Main "HOL-Library.AList"
begin

section \<open>Python containers\<close>

text \<open>
  A Python \<open>dict\<close> keeps its keys in insertion order, and three functions of the
  recommendation service sort or cut the items of a dict, so the dicts of that service
  are association lists with distinct keys. Storing under an existing key replaces the
  value in place, storing under a new key appends: this is \<^const>\<open>AList.update\<close>.
  Reading a \<open>defaultdict\<close> or a \<open>Counter\<close> at a missing key yields the default.
\<close>

definition dict_get :: "'v \<Rightarrow> ('k \<times> 'v) list \<Rightarrow> 'k \<Rightarrow> 'v" where
  "dict_get dflt d k = (case map_of d k of None \<Rightarrow> dflt | Some v \<Rightarrow> v)"

text \<open>The slice \<open>xs[i:j]\<close>: negative bounds count from the end, all bounds are clamped.\<close>

definition py_slice :: "'a list \<Rightarrow> int \<Rightarrow> int \<Rightarrow> 'a list" where
  "py_slice xs i j =
     (let n = int (length xs);
          lo = (if i < 0 then max 0 (n + i) else min n i);
          hi = (if j < 0 then max 0 (n + j) else min n j)
      in take (nat hi - nat lo) (drop (nat lo) xs))"


section \<open>The recommendation service (app/services/recommendation\_service.py)\<close>

type_synonym co_matrix = "(string \<times> (string \<times> int) list) list"

text \<open>
  The three fields of \<open>RecommendationService\<close>. A timestamp is the reading of the clock
  at the call (\<open>datetime.now()\<close>), passed in as a number.
\<close>

record recommendation_service =
  co_occurrence_matrix :: co_matrix
  user_interactions :: "(string \<times> (string \<times> nat) list) list"
  product_popularity :: "(string \<times> int) list"

definition RecommendationService_init :: recommendation_service where
  "RecommendationService_init =
     \<lparr>co_occurrence_matrix = [], user_interactions = [], product_popularity = []\<rparr>"

text \<open>\<open>matrix[a][b] += 1\<close> on a \<open>defaultdict\<close> of \<open>defaultdict(int)\<close>.\<close>

definition incr_cell :: "string \<Rightarrow> string \<Rightarrow> co_matrix \<Rightarrow> co_matrix" where
  "incr_cell a b m =
     (let row = dict_get [] m a
      in AList.update a (AList.update b (dict_get 0 row b + 1) row) m)"

text \<open>The loop over \<open>recent_products\<close> of \<open>register_interaction\<close>.\<close>

fun update_co_occurrence :: "string \<Rightarrow> string list \<Rightarrow> co_matrix \<Rightarrow> co_matrix" where
  "update_co_occurrence product_id [] m = m"
| "update_co_occurrence product_id (other_product # rest) m =
     update_co_occurrence product_id rest
       (if other_product \<noteq> product_id
        then incr_cell other_product product_id (incr_cell product_id other_product m)
        else m)"

definition register_interaction ::
  "recommendation_service \<Rightarrow> string \<Rightarrow> string \<Rightarrow> string \<Rightarrow> nat \<Rightarrow> recommendation_service \<times> int"
where
  "register_interaction s user_id product_id interaction_type timestamp =
     (let ui = AList.update user_id
                 (dict_get [] (user_interactions s) user_id @ [(product_id, timestamp)])
                 (user_interactions s);
          pp = AList.update product_id
                 (dict_get 0 (product_popularity s) product_id + 1)
                 (product_popularity s);
          recent_products = map fst (py_slice (dict_get [] ui user_id) (- 11) (- 1));
          com = update_co_occurrence product_id recent_products (co_occurrence_matrix s)
      in (\<lparr>co_occurrence_matrix = com, user_interactions = ui, product_popularity = pp\<rparr>,
          int (length (dict_get [] ui user_id))))"

text \<open>The count of the pair \<open>(a, b)\<close>, 0 when it was never recorded, and its presence as a key.\<close>

definition co_count :: "co_matrix \<Rightarrow> string \<Rightarrow> string \<Rightarrow> int" where
  "co_count m a b = dict_get 0 (dict_get [] m a) b"

definition co_present :: "co_matrix \<Rightarrow> string \<Rightarrow> string \<Rightarrow> bool" where
  "co_present m a b = (b \<in> fst ` set (dict_get [] m a))"

text \<open>A sequence of calls \<open>(user_id, product_id, interaction_type, timestamp)\<close>.\<close>

fun register_all ::
  "recommendation_service \<Rightarrow> (string \<times> string \<times> string \<times> nat) list \<Rightarrow> recommendation_service"
where
  "register_all s [] = s"
| "register_all s ((user_id, product_id, interaction_type, timestamp) # calls) =
     register_all (fst (register_interaction s user_id product_id interaction_type timestamp)) calls"


subsection \<open>Recommendations\<close>

text \<open>
  A recommendation is a tuple \<open>(product_id, score, reason)\<close>. Scores are Python floats;
  the model computes them in the reals, so rounding is not modelled. An exception is a
  value of the type \<open>error\<close>, named after the Python exception and the place that
  raises it: the four \<open>ValueError\<close>s of the vector index (the dimension check and the
  count check of \<open>add_embeddings\<close>, the index type of \<open>create_index\<close>, the
  dimension check of \<open>search\<close>), the \<open>KeyError\<close> of a pickled dict without one of
  its keys, the error of \<open>pickle.load\<close> on an unreadable file, the \<open>TypeError\<close> of
  the faiss binding for an argument it cannot convert, an assertion of the Python layer
  of faiss, and an exception raised inside the faiss library.
\<close>

type_synonym recommendation = "string \<times> real \<times> string"

datatype error =
    ZeroDivisionError
  | ValueError_embedding_dimension
  | ValueError_count
  | ValueError_index_type
  | ValueError_query_dimension
  | KeyError string
  | UnpicklingError
  | TypeError
  | FaissAssertionError
  | FaissRuntimeError





text \<open>
  \<open>get_visual_recommendations\<close> logs, binds the empty list and returns it: the search
  of the vector index is a TODO of the source.
\<close>

definition get_visual_recommendations ::
  "recommendation_service \<Rightarrow> string \<Rightarrow> int \<Rightarrow> recommendation list" where
  "get_visual_recommendations s product_id n = (let recommendations = [] in recommendations)"












section \<open>The vector index (app/services/faiss\_service.py)\<close>

subsection \<open>What the service uses of numpy and faiss\<close>

text \<open>
  A two-dimensional numpy array has one row length, \<open>shape[1]\<close>, also when it has no
  row; \<open>len\<close> of the array is the number of its rows. Its numbers are \<open>float32\<close>; the
  model computes in the reals.
\<close>

record ndarray =
  shape1 :: nat
  rows :: "real list list"

text \<open>
  faiss is a library, not code of the repository. The model keeps what the service
  relies on: an index has a class, a dimension \<open>d\<close>, a flag \<open>is_trained\<close> and its
  vectors in insertion order (\<open>ntotal\<close> is their number). The constructors of the flat
  classes accept every dimension; \<open>IndexIVFFlat\<close> takes its dimension and its
  number of lists as unsigned numbers (a negative one is a \<open>TypeError\<close> of the
  binding) and starts untrained. \<open>add\<close> asserts the row length and refuses an untrained
  index. \<open>search\<close> asserts the query length and \<open>k > 0\<close>, and returns \<open>k\<close> pairs
  \<open>(distance, position)\<close>: squared Euclidean distances in ascending order, or inner
  products in descending order for \<open>IndexFlatIP\<close>, padded with position \<open>-1\<close> when
  the index holds fewer than \<open>k\<close> vectors. The search is the exact scan; the order
  among equal distances (insertion order here) is a choice of the model, and the
  approximate search of a trained \<open>IndexIVFFlat\<close>, which only \<open>load_index\<close> can bring
  in, is idealised as exact.
\<close>

datatype index_class = IndexFlatL2 | IndexFlatIP | IndexIVFFlat

record faiss_index =
  index_class :: index_class
  d :: int
  is_trained :: bool
  xb :: "real list list"

definition ntotal :: "faiss_index \<Rightarrow> int" where
  "ntotal idx = int (length (xb idx))"

definition new_IndexFlatL2 :: "int \<Rightarrow> faiss_index" where
  "new_IndexFlatL2 d_arg = \<lparr>index_class = IndexFlatL2, d = d_arg, is_trained = True, xb = []\<rparr>"

definition new_IndexFlatIP :: "int \<Rightarrow> faiss_index" where
  "new_IndexFlatIP d_arg = \<lparr>index_class = IndexFlatIP, d = d_arg, is_trained = True, xb = []\<rparr>"

definition new_IndexIVFFlat :: "faiss_index \<Rightarrow> int \<Rightarrow> int \<Rightarrow> error + faiss_index" where
  "new_IndexIVFFlat quantizer d_arg nlist =
     (if d_arg < 0 \<or> nlist < 0 then Inl TypeError
      else if d_arg \<noteq> d quantizer then Inl FaissRuntimeError
      else Inr \<lparr>index_class = IndexIVFFlat, d = d_arg,
                is_trained = (is_trained quantizer \<and> ntotal quantizer = nlist), xb = []\<rparr>)"

definition faiss_add :: "faiss_index \<Rightarrow> ndarray \<Rightarrow> error + faiss_index" where
  "faiss_add idx x =
     (if int (shape1 x) \<noteq> d idx then Inl FaissAssertionError
      else if \<not> is_trained idx then Inl FaissRuntimeError
      else Inr (idx\<lparr>xb := xb idx @ rows x\<rparr>))"

definition FLT_MAX :: real where
  "FLT_MAX = (2 - 1 / 2 ^ 23) * 2 ^ 127"

definition metric_distance :: "index_class \<Rightarrow> real list \<Rightarrow> real list \<Rightarrow> real" where
  "metric_distance c x q =
     (if c = IndexFlatIP then sum_list (map2 (\<lambda>a b. a * b) x q)
      else sum_list (map2 (\<lambda>a b. (a - b) ^ 2) x q))"

definition faiss_search :: "faiss_index \<Rightarrow> real list \<Rightarrow> int \<Rightarrow> error + (real \<times> int) list" where
  "faiss_search idx q k =
     (if int (length q) \<noteq> d idx \<or> k \<le> 0 then Inl FaissAssertionError
      else
        let scored = map (\<lambda>(i, x). (metric_distance (index_class idx) x q, int i))
                         (enumerate 0 (xb idx));
            ranked = (if index_class idx = IndexFlatIP
                      then sort_key (\<lambda>(distance, i). - distance) scored
                      else sort_key (\<lambda>(distance, i). distance) scored);
            padding = (if index_class idx = IndexFlatIP then (- FLT_MAX, - 1) else (FLT_MAX, - 1))
        in Inr (take (nat k) ranked @ replicate (nat k - length ranked) padding))"

subsection \<open>The service\<close>

text \<open>
  The fields of \<open>FAISSService\<close>, without \<open>index_path\<close> (a constant directory). A call
  that can raise returns its outcome together with the state it leaves behind, since an
  exception does not undo the assignments made before it.
\<close>

type_synonym meta = "(string \<times> string) list"

record faiss_service =
  embedding_size :: int
  index :: "faiss_index option"
  id_mapping :: "int \<rightharpoonup> string"
  metadata :: "string \<rightharpoonup> meta"

definition FAISSService_init :: "int \<Rightarrow> faiss_service" where
  "FAISSService_init embedding_size_arg =
     \<lparr>embedding_size = embedding_size_arg, index = None,
      id_mapping = Map.empty, metadata = Map.empty\<rparr>"

definition create_index :: "faiss_service \<Rightarrow> string \<Rightarrow> (error + unit) \<times> faiss_service" where
  "create_index s index_type =
     (if index_type = ''L2'' then
        (Inr (), s\<lparr>index := Some (new_IndexFlatL2 (embedding_size s))\<rparr>)
      else if index_type = ''Cosine'' then
        (Inr (), s\<lparr>index := Some (new_IndexFlatIP (embedding_size s))\<rparr>)
      else if index_type = ''IVF'' then
        (let quantizer = new_IndexFlatL2 (embedding_size s)
         in (case new_IndexIVFFlat quantizer (embedding_size s) 100 of
               Inl e \<Rightarrow> (Inl e, s)
             | Inr ivf \<Rightarrow> (Inr (), s\<lparr>index := Some ivf\<rparr>)))
      else (Inl ValueError_index_type, s))"

text \<open>
  The loop over \<open>enumerate(image_ids)\<close> of \<open>add_embeddings\<close>, from position \<open>i\<close>,
  and the function. After its first statement the service has an index, so the branch
  for a service without index is never taken.
\<close>

fun update_mappings ::
  "int \<Rightarrow> nat \<Rightarrow> string list \<Rightarrow> meta list option
     \<Rightarrow> (int \<rightharpoonup> string) \<times> (string \<rightharpoonup> meta) \<Rightarrow> (int \<rightharpoonup> string) \<times> (string \<rightharpoonup> meta)" where
  "update_mappings current_size i [] metadata_arg (idm, md) = (idm, md)"
| "update_mappings current_size i (image_id # rest) metadata_arg (idm, md) =
     update_mappings current_size (Suc i) rest metadata_arg
       (idm(current_size + int i \<mapsto> image_id),
        (case metadata_arg of
           None \<Rightarrow> md
         | Some ms \<Rightarrow> if ms \<noteq> [] \<and> i < length ms then md(image_id \<mapsto> ms ! i) else md))"

definition add_embeddings ::
  "faiss_service \<Rightarrow> ndarray \<Rightarrow> string list \<Rightarrow> meta list option \<Rightarrow> (error + unit) \<times> faiss_service"
where
  "add_embeddings s embeddings image_ids metadata_arg =
     (case (case index s of None \<Rightarrow> create_index s ''L2'' | Some i \<Rightarrow> (Inr (), s)) of
        (Inl e, s1) \<Rightarrow> (Inl e, s1)
      | (Inr u, s1) \<Rightarrow>
          if int (shape1 embeddings) \<noteq> embedding_size s1 then
            (Inl ValueError_embedding_dimension, s1)
          else if length (rows embeddings) \<noteq> length image_ids then
            (Inl ValueError_count, s1)
          else
            (case index s1 of
               None \<Rightarrow> (Inl FaissRuntimeError, s1)
             | Some idx \<Rightarrow>
                 (let current_size = ntotal idx
                  in (case faiss_add idx embeddings of
                        Inl e \<Rightarrow> (Inl e, s1)
                      | Inr idx' \<Rightarrow>
                          (let (idm, md) = update_mappings current_size 0 image_ids metadata_arg
                                             (id_mapping s1, metadata s1)
                           in (Inr (), s1\<lparr>index := Some idx', id_mapping := idm,
                                           metadata := md\<rparr>))))))"

text \<open>The loop of \<open>search\<close> over the pairs that faiss returns.\<close>

fun convert_results ::
  "(int \<rightharpoonup> string) \<Rightarrow> bool \<Rightarrow> (real \<times> int) list \<Rightarrow> error + (string \<times> real) list" where
  "convert_results idm return_distances [] = Inr []"
| "convert_results idm return_distances ((distance, faiss_idx) # rest) =
     (case idm faiss_idx of
        None \<Rightarrow> convert_results idm return_distances rest
      | Some image_id \<Rightarrow>
          if return_distances then
            (if 1 + distance = 0 then Inl ZeroDivisionError
             else (case convert_results idm return_distances rest of
                     Inl e \<Rightarrow> Inl e
                   | Inr results \<Rightarrow> Inr ((image_id, 1 / (1 + distance)) # results)))
          else
            (case convert_results idm return_distances rest of
               Inl e \<Rightarrow> Inl e
             | Inr results \<Rightarrow> Inr ((image_id, distance) # results)))"

definition search ::
  "faiss_service \<Rightarrow> real list \<Rightarrow> int \<Rightarrow> bool \<Rightarrow> error + (string \<times> real) list" where
  "search s query_embedding k return_distances =
     (case index s of
        None \<Rightarrow> Inr []
      | Some idx \<Rightarrow>
          if ntotal idx = 0 then Inr []
          else if int (length query_embedding) \<noteq> embedding_size s then
            Inl ValueError_query_dimension
          else
            (let k = min k (ntotal idx)
             in (case faiss_search idx query_embedding k of
                   Inl e \<Rightarrow> Inl e
                 | Inr pairs \<Rightarrow> convert_results (id_mapping s) return_distances pairs)))"

text \<open>
  \<open>load_index\<close> reads two files. A file is missing, unreadable, or holds a value; the
  pickled dict of the metadata file may lack any of its three keys.
\<close>

datatype 'a disk_file = Missing | Unreadable | Stored 'a

record pickled =
  p_id_mapping :: "(int \<rightharpoonup> string) option"
  p_metadata :: "(string \<rightharpoonup> meta) option"
  p_embedding_size :: "int option"

definition load_index ::
  "faiss_service \<Rightarrow> faiss_index disk_file \<Rightarrow> pickled disk_file \<Rightarrow> (error + bool) \<times> faiss_service" where
  "load_index s index_file metadata_file =
     (case index_file of
        Missing \<Rightarrow> (Inr False, s)
      | Unreadable \<Rightarrow> (Inl FaissRuntimeError, s)
      | Stored idx \<Rightarrow>
          (let s1 = s\<lparr>index := Some idx\<rparr>
           in (case metadata_file of
                 Missing \<Rightarrow> (Inr True, s1)
               | Unreadable \<Rightarrow> (Inl UnpicklingError, s1)
               | Stored data \<Rightarrow>
                   (case p_id_mapping data of
                      None \<Rightarrow> (Inl (KeyError ''id_mapping''), s1)
                    | Some idm \<Rightarrow>
                        (let s2 = s1\<lparr>id_mapping := idm\<rparr>
                         in (case p_metadata data of
                               None \<Rightarrow> (Inl (KeyError ''metadata''), s2)
                             | Some md \<Rightarrow>
                                 (let s3 = s2\<lparr>metadata := md\<rparr>
                                  in (case p_embedding_size data of
                                        None \<Rightarrow> (Inl (KeyError ''embedding_size''), s3)
                                      | Some es \<Rightarrow>
                                          (Inr True, s3\<lparr>embedding_size := es\<rparr>)))))))))"

text \<open>\<open>total_embeddings\<close> of \<open>get_stats\<close>: \<open>ntotal\<close> of the index, 0 without an index.\<close>

definition total_embeddings :: "faiss_service \<Rightarrow> int" where
  "total_embeddings s = (case index s of None \<Rightarrow> 0 | Some idx \<Rightarrow> ntotal idx)"

text \<open>The vectors that the index of the service holds, none without an index.\<close>

definition stored_vectors :: "faiss_service \<Rightarrow> real list list" where
  "stored_vectors s = (case index s of None \<Rightarrow> [] | Some idx \<Rightarrow> xb idx)"


section \<open>Properties of \<open>register_interaction\<close>\<close>

lemma dict_get_update:
  "dict_get dflt (AList.update k v al) k' = (if k' = k then v else dict_get dflt al k')"
  by (simp add: dict_get_def update_conv')

lemma co_count_incr_cell:
  "co_count (incr_cell a b m) x y = co_count m x y + (if x = a \<and> y = b then 1 else 0)"
  by (simp add: co_count_def incr_cell_def Let_def dict_get_update)

lemma co_present_incr_cell:
  "co_present (incr_cell a b m) x y = (if x = a then y = b \<or> co_present m a y else co_present m x y)"
  by (simp add: co_present_def incr_cell_def Let_def dict_get_update dom_update)

lemma co_count_update_co_occurrence:
  "co_count (update_co_occurrence p ws m) x y =
     co_count m x y + (if x = p \<and> y \<noteq> p then int (count_list ws y)
                       else if y = p \<and> x \<noteq> p then int (count_list ws x) else 0)"
  by (induction ws arbitrary: m) (auto simp: co_count_incr_cell)

lemma co_present_update_co_occurrence:
  "co_present (update_co_occurrence p ws m) x y =
     (co_present m x y \<or> (x = p \<and> y \<in> set ws \<and> y \<noteq> p) \<or> (y = p \<and> x \<in> set ws \<and> x \<noteq> p))"
  by (induction ws arbitrary: m) (auto simp: co_present_incr_cell)

lemma py_slice_prior_window:
  "py_slice (h @ [x]) (- 11) (- 1) = drop (length h - 10) h"
  by (auto simp: py_slice_def Let_def max_def nat_diff_distrib)

lemma register_interaction_matrix:
  "co_occurrence_matrix (fst (register_interaction s u p k ts)) =
     update_co_occurrence p
       (map fst (drop (length (dict_get [] (user_interactions s) u) - 10)
                      (dict_get [] (user_interactions s) u)))
       (co_occurrence_matrix s)"
  by (simp add: register_interaction_def Let_def dict_get_update py_slice_prior_window)

text \<open>
  Claim C1, as the code has it. One call of \<open>register_interaction\<close> appends
  \<open>(product_id, timestamp)\<close> to the user's history, adds 1 to the popularity of
  \<open>product_id\<close>, and returns the new length of the history. The prior window is made
  of the last \<open>min 10 (length h)\<close> entries of the history \<open>h\<close> before the call. For
  every other product the counts of both directions of the pair grow by the number of
  ENTRIES of the window that hold this product (a product seen twice in the window
  counts twice); no other count changes.
\<close>

theorem register_interaction_per_occurrence:
  fixes s :: recommendation_service and user_id :: string
  defines "h \<equiv> dict_get [] (user_interactions s) user_id"
  defines "window \<equiv> map fst (drop (length h - min 10 (length h)) h)"
  assumes call: "register_interaction s user_id product_id interaction_type timestamp = (s', n)"
  shows "dict_get [] (user_interactions s') user_id = h @ [(product_id, timestamp)]
       \<and> dict_get 0 (product_popularity s') product_id
           = dict_get 0 (product_popularity s) product_id + 1
       \<and> (\<forall>other. other \<noteq> product_id \<longrightarrow>
             co_count (co_occurrence_matrix s') product_id other
               = co_count (co_occurrence_matrix s) product_id other + int (count_list window other)
           \<and> co_count (co_occurrence_matrix s') other product_id
               = co_count (co_occurrence_matrix s) other product_id + int (count_list window other))
       \<and> (\<forall>a b. a \<noteq> product_id \<and> b \<noteq> product_id \<longrightarrow>
             co_count (co_occurrence_matrix s') a b = co_count (co_occurrence_matrix s) a b)
       \<and> co_count (co_occurrence_matrix s') product_id product_id
           = co_count (co_occurrence_matrix s) product_id product_id
       \<and> n = int (length h) + 1"
proof -
  have s': "s' = fst (register_interaction s user_id product_id interaction_type timestamp)"
    and n: "n = snd (register_interaction s user_id product_id interaction_type timestamp)"
    using call by simp_all
  have w: "window = map fst (drop (length h - 10) h)"
    unfolding window_def by (simp add: min_def)
  have m: "co_occurrence_matrix s' = update_co_occurrence product_id window (co_occurrence_matrix s)"
    unfolding s' w h_def by (rule register_interaction_matrix)
  have hist: "dict_get [] (user_interactions s') user_id = h @ [(product_id, timestamp)]"
    unfolding s' h_def by (simp add: register_interaction_def Let_def dict_get_update)
  have pop: "dict_get 0 (product_popularity s') product_id
               = dict_get 0 (product_popularity s) product_id + 1"
    unfolding s' by (simp add: register_interaction_def Let_def dict_get_update)
  have len: "n = int (length h) + 1"
    unfolding n h_def by (simp add: register_interaction_def Let_def dict_get_update)
  have cnt: "co_count (co_occurrence_matrix s') x y = co_count (co_occurrence_matrix s) x y +
      (if x = product_id \<and> y \<noteq> product_id then int (count_list window y)
       else if y = product_id \<and> x \<noteq> product_id then int (count_list window x) else 0)" for x y
    by (simp only: m co_count_update_co_occurrence)
  show ?thesis
    using hist pop len by (simp add: cnt)
qed

text \<open>
  The theorem applied to the third call of a user who saw \<open>p1\<close> twice and now sees
  \<open>p2\<close>: the window holds \<open>p1\<close> twice, the count of \<open>(p2, p1)\<close> goes from 0 to 2 and
  the call returns 3.
\<close>

theorem register_interaction_per_occurrence_witness:
  "co_count (co_occurrence_matrix (fst (register_interaction
       (register_all RecommendationService_init [(''u1'', ''p1'', ''view'', 1), (''u1'', ''p1'', ''view'', 2)])
       ''u1'' ''p2'' ''view'' 3))) ''p2'' ''p1'' = 2
   \<and> snd (register_interaction
       (register_all RecommendationService_init [(''u1'', ''p1'', ''view'', 1), (''u1'', ''p1'', ''view'', 2)])
       ''u1'' ''p2'' ''view'' 3) = 3"
proof -
  define s where
    "s = register_all RecommendationService_init [(''u1'', ''p1'', ''view'', 1), (''u1'', ''p1'', ''view'', 2)]"
  have h: "dict_get [] (user_interactions s) ''u1'' = [(''p1'', 1), (''p1'', 2)]"
    unfolding s_def by code_simp
  have c: "co_count (co_occurrence_matrix s) ''p2'' ''p1'' = 0"
    unfolding s_def by code_simp
  have ne: "''p1'' \<noteq> ''p2''"
    by simp
  note t = register_interaction_per_occurrence
             [OF surjective_pairing, of s "''u1''" "''p2''" "''view''" 3]
  note t1 = t [THEN conjunct2, THEN conjunct2, THEN conjunct1, THEN spec, of "''p1''",
      THEN mp, OF ne, THEN conjunct1]
  note t2 = t [THEN conjunct2, THEN conjunct2, THEN conjunct2, THEN conjunct2, THEN conjunct2]
  from t1 t2 show ?thesis
    unfolding h c s_def [symmetric] by simp
qed

text \<open>
  Claim C1 as the specification words it fails: with \<open>p1\<close> twice in the window, the one
  distinct product \<open>p1\<close> would raise the count of \<open>(p2, p1)\<close> from 0 to 1; the code
  leaves it at 2.
\<close>

theorem register_interaction_distinct_counterexample:
  "map fst (dict_get [] (user_interactions
       (register_all RecommendationService_init [(''u1'', ''p1'', ''view'', 1), (''u1'', ''p1'', ''view'', 2)])) ''u1'')
     = [''p1'', ''p1'']
   \<and> co_count (co_occurrence_matrix
       (register_all RecommendationService_init [(''u1'', ''p1'', ''view'', 1), (''u1'', ''p1'', ''view'', 2)]))
        ''p2'' ''p1'' = 0
   \<and> co_count (co_occurrence_matrix (fst (register_interaction
       (register_all RecommendationService_init [(''u1'', ''p1'', ''view'', 1), (''u1'', ''p1'', ''view'', 2)])
       ''u1'' ''p2'' ''view'' 3))) ''p2'' ''p1'' = 2"
  by code_simp

lemma register_interaction_symmetric:
  assumes "\<And>a b. co_count (co_occurrence_matrix s) a b = co_count (co_occurrence_matrix s) b a"
  shows "co_count (co_occurrence_matrix (fst (register_interaction s u p k ts))) a b
           = co_count (co_occurrence_matrix (fst (register_interaction s u p k ts))) b a"
  using assms [of a b]
  by (simp only: register_interaction_matrix co_count_update_co_occurrence) auto

lemma register_interaction_no_self:
  assumes "\<And>a. \<not> co_present (co_occurrence_matrix s) a a"
  shows "\<not> co_present (co_occurrence_matrix (fst (register_interaction s u p k ts))) a a"
  using assms [of a]
  by (simp only: register_interaction_matrix co_present_update_co_occurrence) auto

lemma register_all_invariant:
  assumes "\<And>a b. co_count (co_occurrence_matrix s) a b = co_count (co_occurrence_matrix s) b a"
    and "\<And>a. \<not> co_present (co_occurrence_matrix s) a a"
  shows "co_count (co_occurrence_matrix (register_all s calls)) a b
           = co_count (co_occurrence_matrix (register_all s calls)) b a
       \<and> \<not> co_present (co_occurrence_matrix (register_all s calls)) a a"
  using assms
proof (induction s calls arbitrary: a b rule: register_all.induct)
  case (1 s)
  then show ?case by simp
next
  case (2 s user_id product_id interaction_type timestamp calls)
  show ?case
    unfolding register_all.simps
    by (rule "2.IH")
       (simp_all add: register_interaction_symmetric register_interaction_no_self "2.prems")
qed

text \<open>
  Claim C2. After any sequence of \<open>register_interaction\<close> calls on a fresh service the
  matrix is symmetric, \<open>count(A, B) = count(B, A)\<close> for all products, and no row holds
  its own product as a key.
\<close>

theorem co_occurrence_symmetric_no_self:
  "co_count (co_occurrence_matrix (register_all RecommendationService_init calls)) a b
     = co_count (co_occurrence_matrix (register_all RecommendationService_init calls)) b a
   \<and> \<not> co_present (co_occurrence_matrix (register_all RecommendationService_init calls)) a a"
  by (rule register_all_invariant)
     (simp_all add: co_count_def co_present_def RecommendationService_init_def dict_get_def)


section \<open>Properties of the recommendations\<close>




text \<open>
  Claim C8 asks for a non-empty result of \<open>get_visual_recommendations\<close> when the vector
  index holds an embedding of the product. The code never reads the index: for every
  state, product and \<open>n\<close> the result is the empty list.
\<close>

theorem get_visual_recommendations_empty:
  "get_visual_recommendations s product_id n = []"
  by (simp add: get_visual_recommendations_def)

section \<open>Properties of the vector index\<close>

subsection \<open>Creating and loading\<close>

text \<open>
  Claim C7, as the code has it. Neither \<open>__init__\<close> nor \<open>create_index\<close> looks at
  the sign of the dimension: \<open>__init__\<close> stores it and sets no index, and
  \<open>create_index\<close> with type \<open>L2\<close> or \<open>Cosine\<close> sets an empty index of the dimension
  of the service, whatever it is, as type \<open>IVF\<close> does for a dimension that is not
  negative. \<open>create_index\<close> raises in two cases and no other, and leaves the service
  as it was in both: the \<open>ValueError\<close> of an unsupported index type, and the
  \<open>TypeError\<close> of the faiss binding for type \<open>IVF\<close> with a negative dimension.
\<close>

theorem create_index_no_dimension_check:
  "embedding_size (FAISSService_init n) = n \<and> index (FAISSService_init n) = None
   \<and> create_index s ''L2''
       = (Inr (), s\<lparr>index := Some \<lparr>index_class = IndexFlatL2, d = embedding_size s,
                                    is_trained = True, xb = []\<rparr>\<rparr>)
   \<and> create_index s ''Cosine''
       = (Inr (), s\<lparr>index := Some \<lparr>index_class = IndexFlatIP, d = embedding_size s,
                                    is_trained = True, xb = []\<rparr>\<rparr>)
   \<and> (0 \<le> embedding_size s \<longrightarrow>
        create_index s ''IVF''
          = (Inr (), s\<lparr>index := Some \<lparr>index_class = IndexIVFFlat, d = embedding_size s,
                                       is_trained = False, xb = []\<rparr>\<rparr>))
   \<and> (index_type \<noteq> ''L2'' \<and> index_type \<noteq> ''Cosine'' \<and> index_type \<noteq> ''IVF'' \<longrightarrow>
        create_index s index_type = (Inl ValueError_index_type, s))
   \<and> (embedding_size s < 0 \<longrightarrow> create_index s ''IVF'' = (Inl TypeError, s))
   \<and> ((\<exists>e. fst (create_index s index_type) = Inl e) \<longleftrightarrow>
        (index_type \<noteq> ''L2'' \<and> index_type \<noteq> ''Cosine'' \<and> index_type \<noteq> ''IVF'')
        \<or> (index_type = ''IVF'' \<and> embedding_size s < 0))"
proof -
  have init: "embedding_size (FAISSService_init n) = n \<and> index (FAISSService_init n) = None"
    by (simp add: FAISSService_init_def)
  have l2: "create_index s ''L2''
       = (Inr (), s\<lparr>index := Some \<lparr>index_class = IndexFlatL2, d = embedding_size s,
                                    is_trained = True, xb = []\<rparr>\<rparr>)"
    by (simp add: create_index_def new_IndexFlatL2_def)
  have cosine: "create_index s ''Cosine''
       = (Inr (), s\<lparr>index := Some \<lparr>index_class = IndexFlatIP, d = embedding_size s,
                                    is_trained = True, xb = []\<rparr>\<rparr>)"
    by (simp add: create_index_def new_IndexFlatIP_def)
  have ivf: "create_index s ''IVF''
          = (Inr (), s\<lparr>index := Some \<lparr>index_class = IndexIVFFlat, d = embedding_size s,
                                       is_trained = False, xb = []\<rparr>\<rparr>)"
    if "0 \<le> embedding_size s"
    using that
    by (simp add: create_index_def new_IndexFlatL2_def new_IndexIVFFlat_def ntotal_def)
  have other: "create_index s index_type = (Inl ValueError_index_type, s)"
    if "index_type \<noteq> ''L2'' \<and> index_type \<noteq> ''Cosine'' \<and> index_type \<noteq> ''IVF''"
    using that by (simp add: create_index_def)
  have neg: "create_index s ''IVF'' = (Inl TypeError, s)" if "embedding_size s < 0"
    using that by (simp add: create_index_def new_IndexFlatL2_def new_IndexIVFFlat_def)
  have fails: "(\<exists>e. fst (create_index s index_type) = Inl e) \<longleftrightarrow>
        (index_type \<noteq> ''L2'' \<and> index_type \<noteq> ''Cosine'' \<and> index_type \<noteq> ''IVF'')
        \<or> (index_type = ''IVF'' \<and> embedding_size s < 0)"
  proof (cases "index_type = ''L2'' \<or> index_type = ''Cosine''")
    case True
    then show ?thesis
      using l2 cosine by auto
  next
    case flat: False
    show ?thesis
    proof (cases "index_type = ''IVF''")
      case True
      show ?thesis
      proof (cases "embedding_size s < 0")
        case True
        with neg \<open>index_type = ''IVF''\<close> show ?thesis by simp
      next
        case False
        then have "0 \<le> embedding_size s" by simp
        from ivf [OF this] False \<open>index_type = ''IVF''\<close> show ?thesis by simp
      qed
    next
      case False
      with flat other show ?thesis by simp
    qed
  qed
  have init1: "embedding_size (FAISSService_init n) = n"
    and init2: "index (FAISSService_init n) = None"
    using init by simp_all
  have ivf': "0 \<le> embedding_size s \<longrightarrow>
        create_index s ''IVF''
          = (Inr (), s\<lparr>index := Some \<lparr>index_class = IndexIVFFlat, d = embedding_size s,
                                       is_trained = False, xb = []\<rparr>\<rparr>)"
    by (rule impI) (rule ivf)
  have other': "index_type \<noteq> ''L2'' \<and> index_type \<noteq> ''Cosine'' \<and> index_type \<noteq> ''IVF'' \<longrightarrow>
        create_index s index_type = (Inl ValueError_index_type, s)"
    by (rule impI) (rule other)
  have neg': "embedding_size s < 0 \<longrightarrow> create_index s ''IVF'' = (Inl TypeError, s)"
    by (rule impI) (rule neg)
  show ?thesis
    by (intro conjI) (rule init1 init2 l2 cosine ivf' other' neg' fails)+
qed

text \<open>
  The theorem at dimension 4, for the type \<open>IVF\<close> and for the unsupported \<open>HNSW\<close>, and
  at dimension \<open>-1\<close> for the type \<open>IVF\<close>.
\<close>

theorem create_index_no_dimension_check_witness:
  "create_index (FAISSService_init 4) ''IVF''
     = (Inr (), (FAISSService_init 4)\<lparr>index := Some \<lparr>index_class = IndexIVFFlat, d = 4,
                                       is_trained = False, xb = []\<rparr>\<rparr>)
   \<and> create_index (FAISSService_init 4) ''HNSW'' = (Inl ValueError_index_type, FAISSService_init 4)
   \<and> create_index (FAISSService_init (- 1)) ''IVF'' = (Inl TypeError, FAISSService_init (- 1))"
proof -
  have a: "0 \<le> embedding_size (FAISSService_init 4)"
    by (simp add: FAISSService_init_def)
  have b: "''HNSW'' \<noteq> ''L2'' \<and> ''HNSW'' \<noteq> ''Cosine'' \<and> ''HNSW'' \<noteq> ''IVF''"
    by simp
  have c: "embedding_size (FAISSService_init (- 1)) < 0"
    by (simp add: FAISSService_init_def)
  note t = create_index_no_dimension_check [of 4 "FAISSService_init 4" "''HNSW''"]
  note t1 = t [THEN conjunct2, THEN conjunct2, THEN conjunct2, THEN conjunct2, THEN conjunct1,
               THEN mp, OF a]
  note t2 = t [THEN conjunct2, THEN conjunct2, THEN conjunct2, THEN conjunct2, THEN conjunct2,
               THEN conjunct1, THEN mp, OF b]
  note u = create_index_no_dimension_check [of 4 "FAISSService_init (- 1)" "''IVF''"]
  note u1 = u [THEN conjunct2, THEN conjunct2, THEN conjunct2, THEN conjunct2, THEN conjunct2,
               THEN conjunct2, THEN conjunct1, THEN mp, OF c]
  from t1 t2 u1 show ?thesis
    by (simp add: FAISSService_init_def)
qed

text \<open>
  Claim C7 as the specification words it fails: a service of dimension 0 creates its
  \<open>L2\<close> index without an error.
\<close>

theorem create_index_zero_dimension_counterexample:
  "fst (create_index (FAISSService_init 0) ''L2'') = Inr ()
   \<and> index (snd (create_index (FAISSService_init 0) ''L2''))
       = Some \<lparr>index_class = IndexFlatL2, d = 0, is_trained = True, xb = []\<rparr>"
  by (simp add: create_index_def FAISSService_init_def new_IndexFlatL2_def)

text \<open>
  Claim C6, as the code has it. Without the index file \<open>load_index\<close> returns \<open>False\<close>
  and the service is untouched; an index file that cannot be read raises and the service
  is untouched; a readable index file replaces the index, and a metadata file with its
  three keys replaces \<open>id_mapping\<close>, \<open>metadata\<close> and \<open>embedding_size\<close>, with no
  comparison of the declared \<open>embedding_size\<close> and the dimension of the index.
\<close>

theorem load_index_outcomes:
  "load_index s Missing metadata_file = (Inr False, s)
   \<and> load_index s Unreadable metadata_file = (Inl FaissRuntimeError, s)
   \<and> load_index s (Stored idx) Missing = (Inr True, s\<lparr>index := Some idx\<rparr>)
   \<and> load_index s (Stored idx)
        (Stored \<lparr>p_id_mapping = Some idm, p_metadata = Some md, p_embedding_size = Some es\<rparr>)
      = (Inr True, \<lparr>embedding_size = es, index = Some idx, id_mapping = idm, metadata = md\<rparr>)"
  by (simp add: load_index_def)

text \<open>
  Claim C6 as the specification words it fails: a snapshot whose index has dimension 2
  and whose metadata declare dimension 3 loads with the result \<open>True\<close>.
\<close>

theorem load_index_dimension_counterexample:
  "fst (load_index (FAISSService_init 2)
          (Stored \<lparr>index_class = IndexFlatL2, d = 2, is_trained = True, xb = [[1, 0]]\<rparr>)
          (Stored \<lparr>p_id_mapping = Some [0 \<mapsto> ''a''], p_metadata = Some Map.empty,
                   p_embedding_size = Some 3\<rparr>)) = Inr True
   \<and> embedding_size (snd (load_index (FAISSService_init 2)
          (Stored \<lparr>index_class = IndexFlatL2, d = 2, is_trained = True, xb = [[1, 0]]\<rparr>)
          (Stored \<lparr>p_id_mapping = Some [0 \<mapsto> ''a''], p_metadata = Some Map.empty,
                   p_embedding_size = Some 3\<rparr>))) = 3"
  by (simp add: load_index_def)

subsection \<open>Adding embeddings\<close>

lemma update_mappings_id_mapping:
  "fst (update_mappings cs i ids md (idm, mm)) k =
     (if cs + int i \<le> k \<and> k < cs + int i + int (length ids)
      then Some (ids ! nat (k - cs - int i)) else idm k)"
proof (induction ids arbitrary: i idm mm k)
  case Nil
  then show ?case by auto
next
  case (Cons a ids)
  show ?case
  proof (cases "k = cs + int i")
    case True
    then show ?thesis by (simp add: Cons.IH)
  next
    case False
    then have "nat (k - cs - int i) = Suc (nat (k - cs - int (Suc i)))"
      if "cs + int i \<le> k" using that by simp
    with False show ?thesis by (auto simp: Cons.IH)
  qed
qed

lemma update_mappings_metadata_None:
  "snd (update_mappings cs i ids None (idm, mm)) = mm"
  by (induction ids arbitrary: i idm mm) simp_all

lemma update_mappings_metadata_unchanged:
  "\<forall>j. j < length ids \<and> i + j < length ms \<longrightarrow> ids ! j \<noteq> image_id \<Longrightarrow>
   snd (update_mappings cs i ids (Some ms) (idm, mm)) image_id = mm image_id"
proof (induction ids arbitrary: i idm mm)
  case Nil
  then show ?case by simp
next
  case (Cons a ids)
  have rest: "\<forall>j. j < length ids \<and> Suc i + j < length ms \<longrightarrow> ids ! j \<noteq> image_id"
    using Cons.prems by (metis add_Suc_shift length_Cons not_less_eq nth_Cons_Suc)
  have head: "i < length ms \<longrightarrow> a \<noteq> image_id"
    using Cons.prems by (metis add.right_neutral length_Cons nth_Cons_0 zero_less_Suc)
  show ?case
    using head by (auto simp: Cons.IH [OF rest])
qed

lemma update_mappings_metadata_last:
  "j < length ids \<Longrightarrow> i + j < length ms \<Longrightarrow>
   \<forall>j'. j < j' \<and> j' < length ids \<and> i + j' < length ms \<longrightarrow> ids ! j' \<noteq> ids ! j \<Longrightarrow>
   snd (update_mappings cs i ids (Some ms) (idm, mm)) (ids ! j) = Some (ms ! (i + j))"
proof (induction ids arbitrary: i j idm mm)
  case Nil
  then show ?case by simp
next
  case (Cons a ids)
  show ?case
  proof (cases j)
    case 0
    have rest: "\<forall>j'. j' < length ids \<and> Suc i + j' < length ms \<longrightarrow> ids ! j' \<noteq> a"
    proof (intro allI impI)
      fix j' assume "j' < length ids \<and> Suc i + j' < length ms"
      then have "0 < Suc j' \<and> Suc j' < length (a # ids) \<and> i + Suc j' < length ms" by simp
      with Cons.prems(3) 0 have "(a # ids) ! Suc j' \<noteq> (a # ids) ! 0" by blast
      then show "ids ! j' \<noteq> a" by simp
    qed
    from Cons.prems(2) 0 have "i < length ms" by simp
    then have "ms \<noteq> []" by auto
    with \<open>i < length ms\<close> 0 show ?thesis
      by (simp add: update_mappings_metadata_unchanged [OF rest])
  next
    case (Suc j0)
    have a: "j0 < length ids" using Cons.prems(1) Suc by simp
    have b: "Suc i + j0 < length ms" using Cons.prems(2) Suc by simp
    have c: "\<forall>j'. j0 < j' \<and> j' < length ids \<and> Suc i + j' < length ms \<longrightarrow> ids ! j' \<noteq> ids ! j0"
    proof (intro allI impI)
      fix j' assume "j0 < j' \<and> j' < length ids \<and> Suc i + j' < length ms"
      then have "j < Suc j' \<and> Suc j' < length (a # ids) \<and> i + Suc j' < length ms"
        using Suc by simp
      with Cons.prems(3) have "(a # ids) ! Suc j' \<noteq> (a # ids) ! j" by blast
      then show "ids ! j' \<noteq> ids ! j0" using Suc by simp
    qed
    show ?thesis
      using Cons.IH [OF a b c] Suc by simp
  qed
qed

lemma total_embeddings_stored: "total_embeddings s = int (length (stored_vectors s))"
  by (simp add: total_embeddings_def stored_vectors_def ntotal_def split: option.splits)

lemma add_embeddings_failure_unchanged:
  assumes "fst (add_embeddings s embeddings image_ids metadata_arg) = Inl e"
  shows "total_embeddings (snd (add_embeddings s embeddings image_ids metadata_arg)) = total_embeddings s
       \<and> id_mapping (snd (add_embeddings s embeddings image_ids metadata_arg)) = id_mapping s
       \<and> metadata (snd (add_embeddings s embeddings image_ids metadata_arg)) = metadata s"
  using assms
  by (auto simp: add_embeddings_def create_index_def total_embeddings_def new_IndexFlatL2_def
      ntotal_def Let_def split: option.splits sum.splits if_splits prod.splits)

lemma add_embeddings_dimension_error:
  assumes "int (shape1 embeddings) \<noteq> embedding_size s"
  shows "fst (add_embeddings s embeddings image_ids metadata_arg) = Inl ValueError_embedding_dimension"
  using assms
  by (auto simp: add_embeddings_def create_index_def split: option.splits)

lemma add_embeddings_count_error:
  assumes "int (shape1 embeddings) = embedding_size s"
    and "length (rows embeddings) \<noteq> length image_ids"
  shows "fst (add_embeddings s embeddings image_ids metadata_arg) = Inl ValueError_count"
  using assms
  by (auto simp: add_embeddings_def create_index_def split: option.splits)

lemma add_embeddings_success:
  assumes "fst (add_embeddings s embeddings image_ids metadata_arg) = Inr u"
  shows "length (rows embeddings) = length image_ids
       \<and> stored_vectors (snd (add_embeddings s embeddings image_ids metadata_arg))
           = stored_vectors s @ rows embeddings
       \<and> id_mapping (snd (add_embeddings s embeddings image_ids metadata_arg))
           = fst (update_mappings (total_embeddings s) 0 image_ids metadata_arg
                    (id_mapping s, metadata s))
       \<and> metadata (snd (add_embeddings s embeddings image_ids metadata_arg))
           = snd (update_mappings (total_embeddings s) 0 image_ids metadata_arg
                    (id_mapping s, metadata s))"
  using assms
  by (auto simp: add_embeddings_def create_index_def total_embeddings_def new_IndexFlatL2_def
      stored_vectors_def faiss_add_def
      ntotal_def Let_def split: option.splits sum.splits if_splits prod.splits)

lemma add_embeddings_succeeds:
  assumes "int (shape1 embeddings) = embedding_size s"
    and "length (rows embeddings) = length image_ids"
    and "case index s of None \<Rightarrow> True | Some idx \<Rightarrow> is_trained idx \<and> d idx = embedding_size s"
  shows "fst (add_embeddings s embeddings image_ids metadata_arg) = Inr ()"
  using assms
  by (auto simp: add_embeddings_def create_index_def new_IndexFlatL2_def
      faiss_add_def Let_def split: option.splits sum.splits if_splits prod.splits)

text \<open>
  A service without index, or with a trained index of its own dimension, stays so:
  \<open>create_index\<close> with \<open>L2\<close> or \<open>Cosine\<close> sets such an index and
  \<open>add_embeddings\<close> keeps it, whether it raises or not.
\<close>

lemma create_index_fits:
  assumes "index_type = ''L2'' \<or> index_type = ''Cosine''"
  shows "case index (snd (create_index s index_type)) of None \<Rightarrow> False
         | Some idx \<Rightarrow> is_trained idx \<and> d idx = embedding_size (snd (create_index s index_type))"
  using assms
  by (auto simp: create_index_def new_IndexFlatL2_def new_IndexFlatIP_def)

lemma add_embeddings_fits:
  assumes "case index s of None \<Rightarrow> True | Some idx \<Rightarrow> is_trained idx \<and> d idx = embedding_size s"
  shows "case index (snd (add_embeddings s embeddings image_ids metadata_arg)) of None \<Rightarrow> False
         | Some idx \<Rightarrow> is_trained idx
             \<and> d idx = embedding_size (snd (add_embeddings s embeddings image_ids metadata_arg))"
  using assms
  by (auto simp: add_embeddings_def create_index_def new_IndexFlatL2_def faiss_add_def Let_def
      split: option.splits sum.splits if_splits prod.splits)

lemma update_mappings_metadata_frame:
  assumes "image_id \<notin> set ids"
  shows "snd (update_mappings cs i ids md (idm, mm)) image_id = mm image_id"
proof (cases md)
  case None
  then show ?thesis by (simp add: update_mappings_metadata_None)
next
  case (Some ms)
  have "\<forall>j. j < length ids \<and> i + j < length ms \<longrightarrow> ids ! j \<noteq> image_id"
    using assms nth_mem by fastforce
  then show ?thesis
    unfolding Some by (rule update_mappings_metadata_unchanged)
qed

lemma add_embeddings_dimension_assertion:
  assumes "int (shape1 embeddings) = embedding_size s"
    and "length (rows embeddings) = length image_ids"
    and "index s = Some idx" and "d idx \<noteq> embedding_size s"
  shows "fst (add_embeddings s embeddings image_ids metadata_arg) = Inl FaissAssertionError"
  using assms by (simp add: add_embeddings_def faiss_add_def)

lemma add_embeddings_untrained:
  assumes "int (shape1 embeddings) = embedding_size s"
    and "length (rows embeddings) = length image_ids"
    and "index s = Some idx" and "d idx = embedding_size s" and "\<not> is_trained idx"
  shows "fst (add_embeddings s embeddings image_ids metadata_arg) = Inl FaissRuntimeError"
  using assms by (simp add: add_embeddings_def faiss_add_def)

text \<open>
  Claim C3, as the code has it. A batch whose row length \<open>shape[1]\<close> differs from the
  dimension of the service is refused with the \<open>ValueError\<close> of the dimension check,
  and a batch of that row length but with another number of identifiers than rows with
  the \<open>ValueError\<close> of the count check. Whenever \<open>add_embeddings\<close> raises, the number
  of stored vectors, \<open>id_mapping\<close> and \<open>metadata\<close> are what they were. A valid batch
  is appended whole when the service has no index yet or has a trained index of the
  dimension of the service (as \<open>create_index\<close> with \<open>L2\<close> or \<open>Cosine\<close> leaves it):
  the vectors follow the stored ones, identifier \<open>i\<close> gets position \<open>total + i\<close>, the
  other positions keep their identifiers, the identifiers outside the batch keep their
  metadata, and the total grows by the size of the batch. On an index of another
  dimension, or on an untrained index (as \<open>create_index\<close> with \<open>IVF\<close> leaves it), faiss
  refuses the valid batch.
\<close>

theorem add_embeddings_all_or_nothing:
  fixes s :: faiss_service and embeddings :: ndarray and image_ids :: "string list"
    and metadata_arg :: "meta list option" and idx :: faiss_index
  defines "r \<equiv> add_embeddings s embeddings image_ids metadata_arg"
  shows "(int (shape1 embeddings) \<noteq> embedding_size s \<longrightarrow>
            fst r = Inl ValueError_embedding_dimension)
       \<and> (int (shape1 embeddings) = embedding_size s
            \<and> length (rows embeddings) \<noteq> length image_ids \<longrightarrow>
            fst r = Inl ValueError_count)
       \<and> ((\<exists>e. fst r = Inl e) \<longrightarrow>
            total_embeddings (snd r) = total_embeddings s
            \<and> id_mapping (snd r) = id_mapping s \<and> metadata (snd r) = metadata s)
       \<and> (int (shape1 embeddings) = embedding_size s
            \<and> length (rows embeddings) = length image_ids
            \<and> (case index s of None \<Rightarrow> True
                | Some idx \<Rightarrow> is_trained idx \<and> d idx = embedding_size s) \<longrightarrow>
            fst r = Inr ()
            \<and> stored_vectors (snd r) = stored_vectors s @ rows embeddings
            \<and> total_embeddings (snd r) = total_embeddings s + int (length image_ids)
            \<and> (\<forall>i<length image_ids.
                  id_mapping (snd r) (total_embeddings s + int i) = Some (image_ids ! i))
            \<and> (\<forall>k. k < total_embeddings s \<or> total_embeddings s + int (length image_ids) \<le> k \<longrightarrow>
                  id_mapping (snd r) k = id_mapping s k)
            \<and> (\<forall>image_id. image_id \<notin> set image_ids \<longrightarrow>
                  metadata (snd r) image_id = metadata s image_id))
       \<and> (int (shape1 embeddings) = embedding_size s
            \<and> length (rows embeddings) = length image_ids
            \<and> index s = Some idx \<and> d idx \<noteq> embedding_size s \<longrightarrow>
            fst r = Inl FaissAssertionError)
       \<and> (int (shape1 embeddings) = embedding_size s
            \<and> length (rows embeddings) = length image_ids
            \<and> index s = Some idx \<and> d idx = embedding_size s \<and> \<not> is_trained idx \<longrightarrow>
            fst r = Inl FaissRuntimeError)"
proof (intro conjI impI)
  show "fst r = Inl ValueError_embedding_dimension"
    if "int (shape1 embeddings) \<noteq> embedding_size s"
    unfolding r_def using that by (rule add_embeddings_dimension_error)
  show "fst r = Inl ValueError_count"
    if "int (shape1 embeddings) = embedding_size s \<and> length (rows embeddings) \<noteq> length image_ids"
    unfolding r_def using that by (simp add: add_embeddings_count_error)
  show "fst r = Inl FaissAssertionError"
    if "int (shape1 embeddings) = embedding_size s
        \<and> length (rows embeddings) = length image_ids
        \<and> index s = Some idx \<and> d idx \<noteq> embedding_size s"
    unfolding r_def using that by (simp add: add_embeddings_dimension_assertion)
  show "fst r = Inl FaissRuntimeError"
    if "int (shape1 embeddings) = embedding_size s
        \<and> length (rows embeddings) = length image_ids
        \<and> index s = Some idx \<and> d idx = embedding_size s \<and> \<not> is_trained idx"
    unfolding r_def using that by (simp add: add_embeddings_untrained)
next
  assume "\<exists>e. fst r = Inl e"
  then obtain e where e: "fst (add_embeddings s embeddings image_ids metadata_arg) = Inl e"
    unfolding r_def by blast
  note u = add_embeddings_failure_unchanged [OF e]
  show "total_embeddings (snd r) = total_embeddings s"
    and "id_mapping (snd r) = id_mapping s" and "metadata (snd r) = metadata s"
    unfolding r_def using u by simp_all
next
  assume ok: "int (shape1 embeddings) = embedding_size s
      \<and> length (rows embeddings) = length image_ids
      \<and> (case index s of None \<Rightarrow> True | Some idx \<Rightarrow> is_trained idx \<and> d idx = embedding_size s)"
  then have succ: "fst (add_embeddings s embeddings image_ids metadata_arg) = Inr ()"
    by (simp add: add_embeddings_succeeds)
  note a = add_embeddings_success [OF succ]
  show "fst r = Inr ()"
    unfolding r_def by (rule succ)
  show sv: "stored_vectors (snd r) = stored_vectors s @ rows embeddings"
    unfolding r_def using a by simp
  show "total_embeddings (snd r) = total_embeddings s + int (length image_ids)"
    using a by (simp add: total_embeddings_stored sv)
  show "\<forall>i<length image_ids.
          id_mapping (snd r) (total_embeddings s + int i) = Some (image_ids ! i)"
    unfolding r_def using a by (simp add: update_mappings_id_mapping)
  show "\<forall>k. k < total_embeddings s \<or> total_embeddings s + int (length image_ids) \<le> k \<longrightarrow>
          id_mapping (snd r) k = id_mapping s k"
    unfolding r_def using a by (auto simp: update_mappings_id_mapping)
  show "\<forall>image_id. image_id \<notin> set image_ids \<longrightarrow>
          metadata (snd r) image_id = metadata s image_id"
    unfolding r_def using a by (simp add: update_mappings_metadata_frame)
qed

text \<open>
  The theorem on a fresh \<open>L2\<close> index of dimension 2: a batch of row length 3 is refused
  and the total stays 0; a batch of two rows of length 2 is added and the total is 2. On
  a fresh \<open>IVF\<close> index of dimension 2 the same batch is refused.
\<close>

theorem add_embeddings_all_or_nothing_witness:
  "fst (add_embeddings (snd (create_index (FAISSService_init 2) ''L2''))
          \<lparr>shape1 = 3, rows = [[1, 0, 0]]\<rparr> [''a''] None) = Inl ValueError_embedding_dimension
   \<and> total_embeddings (snd (add_embeddings (snd (create_index (FAISSService_init 2) ''L2''))
          \<lparr>shape1 = 3, rows = [[1, 0, 0]]\<rparr> [''a''] None)) = 0
   \<and> fst (add_embeddings (snd (create_index (FAISSService_init 2) ''L2''))
          \<lparr>shape1 = 2, rows = [[1, 0], [0, 1]]\<rparr> [''a'', ''b''] None) = Inr ()
   \<and> total_embeddings (snd (add_embeddings (snd (create_index (FAISSService_init 2) ''L2''))
          \<lparr>shape1 = 2, rows = [[1, 0], [0, 1]]\<rparr> [''a'', ''b''] None)) = 2
   \<and> fst (add_embeddings (snd (create_index (FAISSService_init 2) ''IVF''))
          \<lparr>shape1 = 2, rows = [[1, 0], [0, 1]]\<rparr> [''a'', ''b''] None) = Inl FaissRuntimeError"
proof -
  define s where "s = snd (create_index (FAISSService_init 2) ''L2'')"
  have es: "embedding_size s = 2"
    and ix: "index s = Some \<lparr>index_class = IndexFlatL2, d = 2, is_trained = True, xb = []\<rparr>"
    unfolding s_def by (simp_all add: create_index_def FAISSService_init_def new_IndexFlatL2_def)
  have tot: "total_embeddings s = 0"
    by (simp add: total_embeddings_def ix ntotal_def)
  note bad = add_embeddings_all_or_nothing [where s = s and embeddings = "\<lparr>shape1 = 3, rows = [[1, 0, 0]]\<rparr>"
                                             and image_ids = "[''a'']" and metadata_arg = None]
  have b1: "fst (add_embeddings s \<lparr>shape1 = 3, rows = [[1, 0, 0]]\<rparr> [''a''] None)
              = Inl ValueError_embedding_dimension"
    using bad [THEN conjunct1] by (simp add: es)
  have b2: "total_embeddings (snd (add_embeddings s \<lparr>shape1 = 3, rows = [[1, 0, 0]]\<rparr> [''a''] None)) = 0"
    using bad [THEN conjunct2, THEN conjunct2, THEN conjunct1] b1 by (simp add: tot)
  note good = add_embeddings_all_or_nothing
                [where s = s and embeddings = "\<lparr>shape1 = 2, rows = [[1, 0], [0, 1]]\<rparr>"
                   and image_ids = "[''a'', ''b'']" and metadata_arg = None]
  have g: "fst (add_embeddings s \<lparr>shape1 = 2, rows = [[1, 0], [0, 1]]\<rparr> [''a'', ''b''] None) = Inr ()
      \<and> total_embeddings (snd (add_embeddings s \<lparr>shape1 = 2, rows = [[1, 0], [0, 1]]\<rparr> [''a'', ''b''] None)) = 2"
    using good [THEN conjunct2, THEN conjunct2, THEN conjunct2, THEN conjunct1]
    by (simp add: es ix tot)
  define v where "v = snd (create_index (FAISSService_init 2) ''IVF'')"
  define ivf where
    "ivf = \<lparr>index_class = IndexIVFFlat, d = 2, is_trained = False, xb = ([] :: real list list)\<rparr>"
  have ves: "embedding_size v = 2" and vix: "index v = Some ivf"
    unfolding v_def ivf_def
    by (simp_all add: create_index_def FAISSService_init_def new_IndexFlatL2_def
        new_IndexIVFFlat_def ntotal_def)
  note refused = add_embeddings_all_or_nothing
                [where s = v and embeddings = "\<lparr>shape1 = 2, rows = [[1, 0], [0, 1]]\<rparr>"
                   and image_ids = "[''a'', ''b'']" and metadata_arg = None and idx = ivf]
  have f: "fst (add_embeddings v \<lparr>shape1 = 2, rows = [[1, 0], [0, 1]]\<rparr> [''a'', ''b''] None)
             = Inl FaissRuntimeError"
    using refused [THEN conjunct2, THEN conjunct2, THEN conjunct2, THEN conjunct2, THEN conjunct2]
    by (simp add: ves vix) (simp add: ivf_def)
  from b1 b2 g f show ?thesis
    unfolding s_def v_def by simp
qed

text \<open>
  Claim C3 as the specification words it fails: after \<open>create_index\<close> with \<open>IVF\<close> on
  a service of dimension 2, a batch of two rows of length 2 with two identifiers is
  valid, and \<open>add_embeddings\<close> raises; the total stays 0.
\<close>

theorem add_embeddings_untrained_index_counterexample:
  "int (shape1 \<lparr>shape1 = 2, rows = [[1, 0], [0, 1]]\<rparr>)
     = embedding_size (snd (create_index (FAISSService_init 2) ''IVF''))
   \<and> length (rows \<lparr>shape1 = 2, rows = [[1, 0], [0, 1]]\<rparr>) = length [''a'', ''b'']
   \<and> fst (add_embeddings (snd (create_index (FAISSService_init 2) ''IVF''))
          \<lparr>shape1 = 2, rows = [[1, 0], [0, 1]]\<rparr> [''a'', ''b''] None) = Inl FaissRuntimeError
   \<and> total_embeddings (snd (add_embeddings (snd (create_index (FAISSService_init 2) ''IVF''))
          \<lparr>shape1 = 2, rows = [[1, 0], [0, 1]]\<rparr> [''a'', ''b''] None)) = 0"
  by code_simp

text \<open>
  Claim C10. After a successful \<open>add_embeddings\<close> with a metadata list, the metadata
  of an identifier are those of its last occurrence in the batch that has an entry in
  the list, whatever was stored for it before (an earlier batch included), while every
  position of the batch maps to its identifier in \<open>id_mapping\<close> and every position
  outside the batch, those of earlier batches included, keeps the identifier it had.
\<close>

theorem add_embeddings_metadata_last_wins:
  assumes ok: "fst (add_embeddings s embeddings image_ids (Some ms)) = Inr ()"
    and j: "j < length image_ids" "j < length ms"
    and last: "\<forall>j'. j < j' \<and> j' < length image_ids \<and> j' < length ms \<longrightarrow>
                 image_ids ! j' \<noteq> image_ids ! j"
  shows "metadata (snd (add_embeddings s embeddings image_ids (Some ms))) (image_ids ! j)
           = Some (ms ! j)
       \<and> (\<forall>i<length image_ids.
            id_mapping (snd (add_embeddings s embeddings image_ids (Some ms)))
              (total_embeddings s + int i) = Some (image_ids ! i))
       \<and> (\<forall>k. k < total_embeddings s \<or> total_embeddings s + int (length image_ids) \<le> k \<longrightarrow>
            id_mapping (snd (add_embeddings s embeddings image_ids (Some ms))) k
              = id_mapping s k)"
proof -
  note a = add_embeddings_success [OF ok]
  have "snd (update_mappings (total_embeddings s) 0 image_ids (Some ms)
          (id_mapping s, metadata s)) (image_ids ! j) = Some (ms ! (0 + j))"
    by (rule update_mappings_metadata_last) (use j last in simp_all)
  then show ?thesis
    using a by (auto simp: update_mappings_id_mapping)
qed

text \<open>
  The theorem on the second of two batches: the first adds \<open>a\<close> twice with the
  metadata \<open>one\<close> and \<open>two\<close>, the second adds \<open>a\<close> again with \<open>three\<close>. The
  metadata of \<open>a\<close> are \<open>three\<close>, position 2 maps to \<open>a\<close>, and the positions 0 and 1
  of the first batch still do.
\<close>

theorem add_embeddings_metadata_last_wins_witness:
  "metadata (snd (add_embeddings
       (snd (add_embeddings (FAISSService_init 2) \<lparr>shape1 = 2, rows = [[1, 0], [0, 1]]\<rparr>
               [''a'', ''a''] (Some [[(''filename'', ''one'')], [(''filename'', ''two'')]])))
       \<lparr>shape1 = 2, rows = [[1, 1]]\<rparr> [''a''] (Some [[(''filename'', ''three'')]]))) ''a''
     = Some [(''filename'', ''three'')]
   \<and> id_mapping (snd (add_embeddings
       (snd (add_embeddings (FAISSService_init 2) \<lparr>shape1 = 2, rows = [[1, 0], [0, 1]]\<rparr>
               [''a'', ''a''] (Some [[(''filename'', ''one'')], [(''filename'', ''two'')]])))
       \<lparr>shape1 = 2, rows = [[1, 1]]\<rparr> [''a''] (Some [[(''filename'', ''three'')]]))) 2
     = Some ''a''
   \<and> id_mapping (snd (add_embeddings
       (snd (add_embeddings (FAISSService_init 2) \<lparr>shape1 = 2, rows = [[1, 0], [0, 1]]\<rparr>
               [''a'', ''a''] (Some [[(''filename'', ''one'')], [(''filename'', ''two'')]])))
       \<lparr>shape1 = 2, rows = [[1, 1]]\<rparr> [''a''] (Some [[(''filename'', ''three'')]]))) 0
     = Some ''a''
   \<and> id_mapping (snd (add_embeddings
       (snd (add_embeddings (FAISSService_init 2) \<lparr>shape1 = 2, rows = [[1, 0], [0, 1]]\<rparr>
               [''a'', ''a''] (Some [[(''filename'', ''one'')], [(''filename'', ''two'')]])))
       \<lparr>shape1 = 2, rows = [[1, 1]]\<rparr> [''a''] (Some [[(''filename'', ''three'')]]))) 1
     = Some ''a''"
proof -
  define s where "s = snd (add_embeddings (FAISSService_init 2)
      \<lparr>shape1 = 2, rows = [[1, 0], [0, 1]]\<rparr>
      [''a'', ''a''] (Some [[(''filename'', ''one'')], [(''filename'', ''two'')]]))"
  have ok: "fst (add_embeddings s \<lparr>shape1 = 2, rows = [[1, 1]]\<rparr> [''a'']
                   (Some [[(''filename'', ''three'')]])) = Inr ()"
    unfolding s_def by code_simp
  have tot: "total_embeddings s = 2"
    unfolding s_def by code_simp
  have old0: "id_mapping s 0 = Some ''a''" and old1: "id_mapping s 1 = Some ''a''"
    unfolding s_def by code_simp+
  have t: "metadata (snd (add_embeddings s \<lparr>shape1 = 2, rows = [[1, 1]]\<rparr> [''a'']
                   (Some [[(''filename'', ''three'')]]))) ([''a''] ! 0)
          = Some ([[(''filename'', ''three'')]] ! 0)
        \<and> (\<forall>i<length [''a''].
            id_mapping (snd (add_embeddings s \<lparr>shape1 = 2, rows = [[1, 1]]\<rparr> [''a'']
                   (Some [[(''filename'', ''three'')]]))) (total_embeddings s + int i)
              = Some ([''a''] ! i))
        \<and> (\<forall>k. k < total_embeddings s \<or> total_embeddings s + int (length [''a'']) \<le> k \<longrightarrow>
            id_mapping (snd (add_embeddings s \<lparr>shape1 = 2, rows = [[1, 1]]\<rparr> [''a'']
                   (Some [[(''filename'', ''three'')]]))) k = id_mapping s k)"
    by (rule add_embeddings_metadata_last_wins [OF ok]) auto
  note frame = t [THEN conjunct2, THEN conjunct2, unfolded tot]
  have p0: "id_mapping (snd (add_embeddings s \<lparr>shape1 = 2, rows = [[1, 1]]\<rparr> [''a'']
                   (Some [[(''filename'', ''three'')]]))) 0 = Some ''a''"
    using frame [THEN spec, of 0] old0 by simp
  have p1: "id_mapping (snd (add_embeddings s \<lparr>shape1 = 2, rows = [[1, 1]]\<rparr> [''a'']
                   (Some [[(''filename'', ''three'')]]))) 1 = Some ''a''"
    using frame [THEN spec, of 1] old1 by simp
  from t p0 p1 show ?thesis
    unfolding tot s_def [symmetric] by simp
qed

subsection \<open>Searching\<close>

lemma length_convert_results:
  "convert_results idm rd pairs = Inr results \<Longrightarrow> length results \<le> length pairs"
  by (induction idm rd pairs arbitrary: results rule: convert_results.induct)
     (auto split: option.splits if_splits sum.splits dest: le_SucI)

lemma convert_results_succeeds:
  "\<forall>p \<in> set pairs. 0 \<le> fst p \<Longrightarrow> \<exists>results. convert_results idm rd pairs = Inr results"
proof (induction pairs)
  case Nil
  then show ?case by simp
next
  case (Cons p pairs)
  obtain distance faiss_idx where p: "p = (distance, faiss_idx)"
    by (cases p)
  from Cons.prems have "0 \<le> distance" and "\<forall>p \<in> set pairs. 0 \<le> fst p"
    by (simp_all add: p)
  then obtain results where "convert_results idm rd pairs = Inr results"
    using Cons.IH by blast
  with \<open>0 \<le> distance\<close> show ?case
    unfolding p by (auto split: option.splits)
qed

lemma metric_distance_nonneg:
  "c \<noteq> IndexFlatIP \<Longrightarrow> 0 \<le> metric_distance c x q"
  by (auto simp: metric_distance_def intro!: sum_list_nonneg)

lemma FLT_MAX_nonneg: "0 \<le> FLT_MAX"
  by (simp add: FLT_MAX_def)

lemma faiss_search_length:
  "faiss_search idx q k = Inr pairs \<Longrightarrow> length pairs = nat k"
  by (auto simp: faiss_search_def Let_def split: if_splits)

lemma faiss_search_nonneg:
  assumes "faiss_search idx q k = Inr pairs" and "index_class idx \<noteq> IndexFlatIP"
  shows "\<forall>p \<in> set pairs. 0 \<le> fst p"
  using assms
  by (auto simp: faiss_search_def Let_def metric_distance_nonneg FLT_MAX_nonneg
      split: if_splits dest!: in_set_takeD)

text \<open>
  Claim C9. On an index of \<open>N > 0\<close> vectors a search with \<open>k > N\<close> is the search
  with \<open>k = N\<close>: whatever it returns has at most \<open>N\<close> results, and with a query of
  the dimension of the service and of the index, on an index of Euclidean metric, it
  does return.
\<close>

theorem search_clamps_k:
  assumes idx: "index s = Some idx" and nonempty: "0 < ntotal idx" and big: "ntotal idx < k"
  shows "search s q k rd = search s q (ntotal idx) rd
       \<and> (\<forall>results. search s q k rd = Inr results \<longrightarrow> int (length results) \<le> ntotal idx)
       \<and> (int (length q) = embedding_size s \<and> embedding_size s = d idx
            \<and> index_class idx \<noteq> IndexFlatIP \<longrightarrow>
          (\<exists>results. search s q k rd = Inr results))"
proof (intro conjI allI impI)
  show clamp: "search s q k rd = search s q (ntotal idx) rd"
    using idx big by (simp add: search_def min_def)
  show "int (length results) \<le> ntotal idx" if "search s q k rd = Inr results" for results
  proof -
    from that clamp have r: "search s q (ntotal idx) rd = Inr results"
      by simp
    then obtain pairs where f: "faiss_search idx q (ntotal idx) = Inr pairs"
      and c: "convert_results (id_mapping s) rd pairs = Inr results"
      using idx nonempty by (auto simp: search_def split: if_splits sum.splits)
    from faiss_search_length [OF f] length_convert_results [OF c] nonempty show ?thesis
      by simp
  qed
  show "\<exists>results. search s q k rd = Inr results"
    if "int (length q) = embedding_size s \<and> embedding_size s = d idx
        \<and> index_class idx \<noteq> IndexFlatIP"
  proof -
    from that nonempty obtain pairs where f: "faiss_search idx q (ntotal idx) = Inr pairs"
      by (auto simp: faiss_search_def Let_def)
    from faiss_search_nonneg [OF f] that
    obtain results where "convert_results (id_mapping s) rd pairs = Inr results"
      using convert_results_succeeds by blast
    with f idx nonempty that show ?thesis
      unfolding clamp by (auto simp: search_def)
  qed
qed

text \<open>The theorem at \<open>k = 10\<close> on an \<open>L2\<close> index of two vectors.\<close>

theorem search_clamps_k_witness:
  "search (snd (add_embeddings (snd (create_index (FAISSService_init 2) ''L2''))
              \<lparr>shape1 = 2, rows = [[1, 0], [0, 1]]\<rparr> [''a'', ''b''] None)) [1, 0] 10 True
     = Inr [(''a'', 1), (''b'', 1 / 3)]"
proof -
  define s where "s = snd (add_embeddings (snd (create_index (FAISSService_init 2) ''L2''))
              \<lparr>shape1 = 2, rows = [[1, 0], [0, 1]]\<rparr> [''a'', ''b''] None)"
  define idx where
    "idx = \<lparr>index_class = IndexFlatL2, d = 2, is_trained = True, xb = [[1, 0], [0, 1 :: real]]\<rparr>"
  have i: "index s = Some idx"
    unfolding s_def idx_def by code_simp
  have n: "ntotal idx = 2"
    unfolding idx_def by (simp add: ntotal_def)
  have a: "0 < ntotal idx" and b: "ntotal idx < 10"
    unfolding n by simp_all
  have e: "search s [1, 0] 2 True = Inr [(''a'', 1), (''b'', 1 / 3)]"
    unfolding s_def by code_simp
  from search_clamps_k [OF i a b, of "[1, 0]" True, THEN conjunct1]
  have "search s [1, 0] 10 True = Inr [(''a'', 1), (''b'', 1 / 3)]"
    unfolding n e .
  then show ?thesis
    unfolding s_def .
qed

text \<open>
  Claim C4 asks, under the inner-product metric, for the raw inner product as the
  similarity, so that a stored unit vector used as the query comes first with similarity
  1. The code applies \<open>1 / (1 + distance)\<close> to whatever faiss returns: on a \<open>Cosine\<close>
  index holding \<open>a = (1, 0)\<close> and \<open>b = (0, 1)\<close>, the query \<open>(1, 0)\<close> returns \<open>a\<close>
  first with similarity \<open>1 / 2\<close>, below the \<open>1\<close> of the orthogonal \<open>b\<close>.
\<close>

theorem search_inner_product_similarity:
  "search (snd (add_embeddings (snd (create_index (FAISSService_init 2) ''Cosine''))
              \<lparr>shape1 = 2, rows = [[1, 0], [0, 1]]\<rparr> [''a'', ''b''] None)) [1, 0] 2 True
     = Inr [(''a'', 1 / 2), (''b'', 1)]"
  by code_simp

end
